theory Spec2Isabelle
  imports Complex_Main "HOL-Library.AList" "HOL-Library.Char_ord" "HOL-Library.List_Lexorder"
begin

section \<open>Gradebook analyzer: a shallow embedding of gradebook.py\<close>

subsection \<open>Python dictionaries\<close>

text \<open>
  A Python \<^verbatim>\<open>dict\<close> keeps its keys in insertion order, and the order is observable
  (\<^verbatim>\<open>max\<close> and \<^verbatim>\<open>min\<close> return the first extreme item met). A dictionary is
  therefore an association list in insertion order whose keys are pairwise distinct.
  The assignment \<^verbatim>\<open>d[k] = v\<close> overwrites the value of a key that is present, leaving
  its position alone, and appends a key that is absent.
\<close>

type_synonym ('k, 'v) dict = "('k \<times> 'v) list"

definition wf_dict :: "('k, 'v) dict \<Rightarrow> bool" where
  "wf_dict d = distinct (map fst d)"

definition dict_set :: "('k, 'v) dict \<Rightarrow> 'k \<Rightarrow> 'v \<Rightarrow> ('k, 'v) dict" where
  "dict_set d k v = AList.update k v d"

definition dict_get :: "('k, 'v) dict \<Rightarrow> 'k \<Rightarrow> 'v option" where
  "dict_get d k = map_of d k"

definition dict_keys :: "('k, 'v) dict \<Rightarrow> 'k list" where
  "dict_keys d = map fst d"

definition dict_values :: "('k, 'v) dict \<Rightarrow> 'v list" where
  "dict_values d = map snd d"

definition dict_items :: "('k, 'v) dict \<Rightarrow> ('k \<times> 'v) list" where
  "dict_items d = d"

subsection \<open>Task 4: grade assignment and distribution\<close>

text \<open>
  \<^verbatim>\<open>assign_grades\<close>, lines 117 to 134. Marks are Python integers, unbounded; grades are
  the one-letter strings the source writes. \<open>assign_grades_body\<close> is one turn of the
  \<^verbatim>\<open>for name, mark in marks_dict.items()\<close> loop, with the branches in the order of the
  \<^verbatim>\<open>if\<close>/\<^verbatim>\<open>elif\<close> chain.
\<close>

definition assign_grades_body ::
  "(string, string) dict \<Rightarrow> string \<times> int \<Rightarrow> (string, string) dict" where
  "assign_grades_body grades_dict item =
     (case item of (name, mark) \<Rightarrow>
        if mark \<ge> 90 then dict_set grades_dict name ''A''
        else if mark \<ge> 80 then dict_set grades_dict name ''B''
        else if mark \<ge> 70 then dict_set grades_dict name ''C''
        else if mark \<ge> 60 then dict_set grades_dict name ''D''
        else dict_set grades_dict name ''F'')"

definition assign_grades :: "(string, int) dict \<Rightarrow> (string, string) dict" where
  "assign_grades marks_dict = foldl assign_grades_body [] (dict_items marks_dict)"

definition calculate_grade_distribution_body ::
  "(string, int) dict \<Rightarrow> string \<Rightarrow> (string, int) dict" where
  "calculate_grade_distribution_body distribution grade =
     (case dict_get distribution grade of
        Some count \<Rightarrow> dict_set distribution grade (count + 1)
      | None \<Rightarrow> distribution)"

text \<open>
  \<^verbatim>\<open>calculate_grade_distribution\<close>, lines 136 to 142: the counter starts with the five
  letters at zero, and a grade that is not one of its keys is passed over.
\<close>

definition calculate_grade_distribution :: "(string, string) dict \<Rightarrow> (string, int) dict" where
  "calculate_grade_distribution grades_dict =
     foldl calculate_grade_distribution_body
       [(''A'', 0), (''B'', 0), (''C'', 0), (''D'', 0), (''F'', 0)]
       (dict_values grades_dict)"

subsection \<open>Task 3: statistics\<close>

text \<open>
  A Python number is an \<^verbatim>\<open>int\<close> or a \<^verbatim>\<open>float\<close>. True division \<^verbatim>\<open>/\<close> of two
  integers returns the float nearest to the exact quotient; \<open>PyFloat q\<close> carries that
  exact quotient \<open>q\<close>, so the rounding of the last bit is left out of the model.
\<close>

datatype py_num = PyInt int | PyFloat rat

datatype py_error = StatisticsError | ValueError | IndexError | KeyError

definition calculate_average :: "(string, int) dict \<Rightarrow> py_num" where
  "calculate_average marks_dict =
     (if marks_dict = [] then PyInt 0
      else let scores = dict_values marks_dict
           in PyFloat (of_int (sum_list scores) / of_int (int (length scores))))"

text \<open>
  \<^verbatim>\<open>statistics.median\<close> of the standard library: sort, raise on no data, take the middle
  element of an odd count and halve the sum of the two middle elements of an even count.
\<close>

definition median :: "int list \<Rightarrow> py_error + py_num" where
  "median xs =
     (let data = sort xs; n = length data
      in if n = 0 then Inl StatisticsError
         else if n mod 2 = 1 then Inr (PyInt (data ! (n div 2)))
         else let i = n div 2
              in Inr (PyFloat (of_int (data ! (i - 1) + data ! i) / 2)))"

definition calculate_median :: "(string, int) dict \<Rightarrow> py_error + py_num" where
  "calculate_median marks_dict =
     (if marks_dict = [] then Inr (PyInt 0)
      else median (dict_values marks_dict))"

text \<open>
  The builtins \<^verbatim>\<open>max\<close> and \<^verbatim>\<open>min\<close> with a key: the first item is the candidate, and a
  later item replaces it only when its key is strictly greater (strictly smaller for
  \<^verbatim>\<open>min\<close>); on no items they raise \<^verbatim>\<open>ValueError\<close>.
\<close>

fun max_loop :: "('a \<Rightarrow> int) \<Rightarrow> 'a \<Rightarrow> 'a list \<Rightarrow> 'a" where
  "max_loop key maxitem [] = maxitem"
| "max_loop key maxitem (item # rest) =
     (if key item > key maxitem then max_loop key item rest else max_loop key maxitem rest)"

fun min_loop :: "('a \<Rightarrow> int) \<Rightarrow> 'a \<Rightarrow> 'a list \<Rightarrow> 'a" where
  "min_loop key minitem [] = minitem"
| "min_loop key minitem (item # rest) =
     (if key item < key minitem then min_loop key item rest else min_loop key minitem rest)"

definition py_max :: "('a \<Rightarrow> int) \<Rightarrow> 'a list \<Rightarrow> py_error + 'a" where
  "py_max key xs = (case xs of [] \<Rightarrow> Inl ValueError | x # rest \<Rightarrow> Inr (max_loop key x rest))"

definition py_min :: "('a \<Rightarrow> int) \<Rightarrow> 'a list \<Rightarrow> py_error + 'a" where
  "py_min key xs = (case xs of [] \<Rightarrow> Inl ValueError | x # rest \<Rightarrow> Inr (min_loop key x rest))"

definition get_max_score :: "(string, int) dict \<Rightarrow> py_error + string \<times> int" where
  "get_max_score marks_dict =
     (if marks_dict = [] then Inr (''N/A'', 0)
      else py_max snd (dict_items marks_dict))"

definition get_min_score :: "(string, int) dict \<Rightarrow> py_error + string \<times> int" where
  "get_min_score marks_dict =
     (if marks_dict = [] then Inr (''N/A'', 0)
      else py_min snd (dict_items marks_dict))"

subsection \<open>Task 5: the pass/fail filter\<close>

text \<open>
  A dictionary comprehension \<^verbatim>\<open>{k: v for k, v in its if cond}\<close> stores the items that
  meet the condition, one after the other, into a fresh dictionary.
\<close>

definition dict_comprehension :: "('k \<times> 'v \<Rightarrow> bool) \<Rightarrow> ('k \<times> 'v) list \<Rightarrow> ('k, 'v) dict" where
  "dict_comprehension cond its =
     foldl (\<lambda>d item. if cond item then dict_set d (fst item) (snd item) else d) [] its"

text \<open>
  \<^verbatim>\<open>print_pass_fail_summary\<close>, lines 146 to 164. The function prints; the model returns
  what it prints from: the two filtered dictionaries, and the two totals it reports.
\<close>

record pass_fail_summary =
  passed_students :: "(string, int) dict"
  failed_students :: "(string, int) dict"
  total_passed :: nat
  total_failed :: nat

definition print_pass_fail_summary :: "(string, int) dict \<Rightarrow> int \<Rightarrow> pass_fail_summary" where
  "print_pass_fail_summary marks_dict pass_threshold =
     (let passed = dict_comprehension (\<lambda>(name, score). score \<ge> pass_threshold)
                     (dict_items marks_dict);
          failed = dict_comprehension (\<lambda>(name, score). score < pass_threshold)
                     (dict_items marks_dict)
      in \<lparr>passed_students = passed, failed_students = failed,
          total_passed = length passed, total_failed = length failed\<rparr>)"

subsection \<open>The cutoffs, in the words of the specification\<close>

text \<open>
  A from 90, B from 80 to 89, C from 70 to 79, D from 60 to 69, F otherwise.
\<close>

definition spec_grade :: "int \<Rightarrow> string" where
  "spec_grade mark =
     (if mark \<ge> 90 then ''A''
      else if 80 \<le> mark \<and> mark \<le> 89 then ''B''
      else if 70 \<le> mark \<and> mark \<le> 79 then ''C''
      else if 60 \<le> mark \<and> mark \<le> 69 then ''D''
      else ''F'')"

subsection \<open>The standard median, in the words of the specification\<close>

text \<open>
  A middle value of a list of marks is one of the marks with no more than half of the
  marks below it and no more than half above it. An odd count has one middle value. An
  even count has two: the lower one has fewer than half of the marks below it, the upper
  one fewer than half above it.
\<close>

definition count_below :: "int list \<Rightarrow> int \<Rightarrow> nat" where
  "count_below xs m = length (filter (\<lambda>x. x < m) xs)"

definition count_above :: "int list \<Rightarrow> int \<Rightarrow> nat" where
  "count_above xs m = length (filter (\<lambda>x. m < x) xs)"

definition lower_middle :: "int list \<Rightarrow> int \<Rightarrow> bool" where
  "lower_middle xs m =
     (m \<in> set xs \<and> 2 * count_below xs m < length xs \<and> 2 * count_above xs m \<le> length xs)"

definition upper_middle :: "int list \<Rightarrow> int \<Rightarrow> bool" where
  "upper_middle xs m =
     (m \<in> set xs \<and> 2 * count_below xs m \<le> length xs \<and> 2 * count_above xs m < length xs)"

subsection \<open>Python strings and integers\<close>

text \<open>
  A Python string is a list of characters; a character of the model is a code point
  below 256. \<^verbatim>\<open>str.isspace\<close> holds there of the code points 9 to 13, 28 to 32, 133
  and 160, and \<^verbatim>\<open>str.strip()\<close> removes such characters from both ends.
\<close>

definition py_isspace :: "char \<Rightarrow> bool" where
  "py_isspace c = ((of_char c :: nat) \<in> {9, 10, 11, 12, 13, 28, 29, 30, 31, 32, 133, 160})"

definition py_strip :: "string \<Rightarrow> string" where
  "py_strip s = rev (dropWhile py_isspace (rev (dropWhile py_isspace s)))"


text \<open>
  \<^verbatim>\<open>int(s)\<close> on a string: surrounding whitespace is dropped, one sign is allowed, then
  come decimal digits, where a single underscore may stand between two digits. Anything
  else raises \<^verbatim>\<open>ValueError\<close>, the result \<open>None\<close> here. The interpreter's configurable
  limit on the number of digits is not part of the model.
\<close>

definition is_digit :: "char \<Rightarrow> bool" where
  "is_digit c = (48 \<le> (of_char c :: nat) \<and> (of_char c :: nat) \<le> 57)"

definition digit_value :: "char \<Rightarrow> nat" where
  "digit_value c = of_char c - 48"

fun scan_digits :: "nat \<Rightarrow> string \<Rightarrow> nat option" where
  "scan_digits acc [] = Some acc"
| "scan_digits acc [c] = (if is_digit c then Some (10 * acc + digit_value c) else None)"
| "scan_digits acc (c # d # ds) =
     (if is_digit c then scan_digits (10 * acc + digit_value c) (d # ds)
      else if c = CHR ''_'' \<and> is_digit d then scan_digits (10 * acc + digit_value d) ds
      else None)"

definition parse_digits :: "string \<Rightarrow> nat option" where
  "parse_digits s =
     (case s of [] \<Rightarrow> None
      | c # cs \<Rightarrow> if is_digit c then scan_digits (digit_value c) cs else None)"

definition py_int :: "string \<Rightarrow> int option" where
  "py_int s =
     (case py_strip s of
        [] \<Rightarrow> None
      | c # cs \<Rightarrow>
          if c = CHR ''-'' then map_option (\<lambda>n. - int n) (parse_digits cs)
          else if c = CHR ''+'' then map_option int (parse_digits cs)
          else map_option int (parse_digits (c # cs)))"





subsection \<open>Task 2b and the bonus task: CSV files\<close>

text \<open>
  The \<^verbatim>\<open>csv\<close> module is library code. A CSV file is modelled by its rows, each a list
  of string fields: the rows that \<^verbatim>\<open>csv.writer\<close> was handed, which are the rows that
  \<^verbatim>\<open>csv.reader\<close> yields from a file opened with \<^verbatim>\<open>newline=''\<close>. The loader opens
  its file in text mode without that argument, so every \<^verbatim>\<open>\r\n\<close> and every other
  \<^verbatim>\<open>\r\<close> reaches the reader as \<^verbatim>\<open>\n\<close>, also inside a quoted field.
  A path names no file, a file, or something that cannot be opened.
\<close>

type_synonym row = "string list"

datatype file_state = NoFile | Denied | File "row list"

type_synonym filesystem = "string \<Rightarrow> file_state"

fun universal_newlines :: "string \<Rightarrow> string" where
  "universal_newlines [] = []"
| "universal_newlines [c] = (if c = CHR 0x0D then [CHR 0x0A] else [c])"
| "universal_newlines (c # d # ds) =
     (if c = CHR 0x0D \<and> d = CHR 0x0A then CHR 0x0A # universal_newlines ds
      else if c = CHR 0x0D then CHR 0x0A # universal_newlines (d # ds)
      else c # universal_newlines (d # ds))"

definition csv_reader :: "row list \<Rightarrow> row list" where
  "csv_reader content = map (map universal_newlines) content"

text \<open>
  One turn of the loop over the rows, lines 69 to 77 of \<^verbatim>\<open>load_from_csv\<close>: an empty
  row is passed over; \<^verbatim>\<open>row[1]\<close> raises \<^verbatim>\<open>IndexError\<close> on a row of one column and
  \<^verbatim>\<open>int\<close> raises \<^verbatim>\<open>ValueError\<close> on a mark that is no integer, and both are caught
  by skipping the row (the printed warning is left out); columns after the second are
  never read.
\<close>

definition load_from_csv_body :: "(string, int) dict \<Rightarrow> row \<Rightarrow> (string, int) dict" where
  "load_from_csv_body marks_dict row =
     (case row of
        [] \<Rightarrow> marks_dict
      | [name_column] \<Rightarrow> marks_dict
      | name_column # mark_column # _ \<Rightarrow>
          (case py_int (py_strip mark_column) of
             None \<Rightarrow> marks_dict
           | Some mark \<Rightarrow> dict_set marks_dict (py_strip name_column) mark))"

definition load_rows :: "row list \<Rightarrow> (string, int) dict" where
  "load_rows rows = foldl load_from_csv_body [] rows"

text \<open>
  \<^verbatim>\<open>load_from_csv\<close>, lines 53 to 84, given the file system and the line typed at the
  prompt. A missing file, a file that cannot be opened, and a file without a header row
  (\<^verbatim>\<open>next(reader)\<close> raises) all end in one of the two outer handlers, with the empty
  dictionary.
\<close>

definition load_from_csv :: "filesystem \<Rightarrow> string \<Rightarrow> (string, int) dict" where
  "load_from_csv fs typed =
     (let filename = py_strip typed
      in case fs filename of
           NoFile \<Rightarrow> []
         | Denied \<Rightarrow> []
         | File content \<Rightarrow>
             (case csv_reader content of
                [] \<Rightarrow> []
              | header # rows \<Rightarrow> load_rows rows))"







section \<open>Properties\<close>

subsection \<open>Dictionaries\<close>

lemma dict_set_fresh:
  "k \<notin> fst ` set d \<Longrightarrow> dict_set d k v = d @ [(k, v)]"
  unfolding dict_set_def by (induction d) auto

lemma wf_dict_Nil: "wf_dict []"
  by (simp add: wf_dict_def)

lemma wf_dict_dict_set: "wf_dict d \<Longrightarrow> wf_dict (dict_set d k v)"
  by (simp add: wf_dict_def dict_set_def distinct_update)

subsection \<open>Grade assignment\<close>

lemma assign_grades_body_fresh:
  "fst item \<notin> fst ` set acc \<Longrightarrow>
   assign_grades_body acc item = acc @ [(fst item, spec_grade (snd item))]"
  by (cases item) (simp add: assign_grades_body_def spec_grade_def dict_set_fresh)

lemma assign_grades_loop:
  "distinct (map fst acc @ map fst d) \<Longrightarrow>
   foldl assign_grades_body acc d = acc @ map (\<lambda>item. (fst item, spec_grade (snd item))) d"
proof (induction d arbitrary: acc)
  case Nil
  show ?case by simp
next
  case (Cons item d)
  from Cons.prems have fresh: "fst item \<notin> fst ` set acc"
    by auto
  from Cons.prems have "distinct (map fst (acc @ [(fst item, spec_grade (snd item))]) @ map fst d)"
    by auto
  from Cons.IH [OF this] fresh show ?case
    by (simp add: assign_grades_body_fresh)
qed

lemma assign_grades_map:
  "wf_dict marks_dict \<Longrightarrow>
   assign_grades marks_dict = map (\<lambda>item. (fst item, spec_grade (snd item))) marks_dict"
  using assign_grades_loop [of "[]" marks_dict]
  by (simp add: assign_grades_def dict_items_def wf_dict_def)

lemma map_of_map_snd:
  "map_of (map (\<lambda>item. (fst item, f (snd item))) d) k = map_option f (map_of d k)"
  by (induction d) auto

lemma assign_grades_get:
  "wf_dict marks_dict \<Longrightarrow>
   dict_get (assign_grades marks_dict) name = map_option spec_grade (dict_get marks_dict name)"
  by (simp add: assign_grades_map dict_get_def map_of_map_snd)

lemma assign_grades_keys:
  "wf_dict marks_dict \<Longrightarrow> dict_keys (assign_grades marks_dict) = dict_keys marks_dict"
  by (simp add: assign_grades_map dict_keys_def comp_def)

lemma assign_grades_single:
  "assign_grades [(name, mark)] = [(name, spec_grade mark)]"
  by (simp add: assign_grades_map wf_dict_def)

text \<open>
  Claim C1. In a dictionary of marks, the grade stored for a student is the letter that
  the fixed cutoffs give to that student's mark: A from 90, B from 80 to 89, C from 70 to
  79, D from 60 to 69, F below. Any student with the same mark, in any dictionary, gets the
  same grade, and the boundary marks 90, 89, 80, 79, 60 and 59 get A, B, B, C, D and F.
\<close>

theorem assign_grades_by_cutoffs:
  assumes "wf_dict marks_dict" and "dict_get marks_dict name = Some mark"
  shows "dict_get (assign_grades marks_dict) name = Some (spec_grade mark)
     \<and> (\<forall>other_dict other. wf_dict other_dict \<and> dict_get other_dict other = Some mark \<longrightarrow>
            dict_get (assign_grades other_dict) other = dict_get (assign_grades marks_dict) name)
     \<and> assign_grades [(name, 90)] = [(name, ''A'')]
     \<and> assign_grades [(name, 89)] = [(name, ''B'')]
     \<and> assign_grades [(name, 80)] = [(name, ''B'')]
     \<and> assign_grades [(name, 79)] = [(name, ''C'')]
     \<and> assign_grades [(name, 60)] = [(name, ''D'')]
     \<and> assign_grades [(name, 59)] = [(name, ''F'')]"
proof -
  have here: "dict_get (assign_grades marks_dict) name = Some (spec_grade mark)"
    using assms by (simp add: assign_grades_get)
  have elsewhere: "dict_get (assign_grades other_dict) other = Some (spec_grade mark)"
    if "wf_dict other_dict" and "dict_get other_dict other = Some mark" for other_dict other
    using that by (simp add: assign_grades_get)
  have points: "spec_grade 90 = ''A''" "spec_grade 89 = ''B''" "spec_grade 80 = ''B''"
    "spec_grade 79 = ''C''" "spec_grade 60 = ''D''" "spec_grade 59 = ''F''"
    by (simp_all add: spec_grade_def)
  show ?thesis
    using here elsewhere by (simp add: assign_grades_single points)
qed

theorem assign_grades_by_cutoffs_witness:
  "dict_get (assign_grades [(''Asha'', 90), (''Ben'', 59)]) ''Ben'' = Some ''F''"
  using assign_grades_by_cutoffs [of "[(''Asha'', 90), (''Ben'', 59)]" "''Ben''" 59]
  by (simp add: wf_dict_def dict_get_def spec_grade_def)

text \<open>
  Claim C9. The dictionary of grades has exactly the keys of the dictionary of marks it
  was computed from: a name has a grade if and only if it has a mark.
\<close>

theorem grades_and_marks_same_keys:
  assumes "wf_dict marks_dict"
  shows "set (dict_keys (assign_grades marks_dict)) = set (dict_keys marks_dict)
     \<and> (\<forall>name. (\<exists>grade. dict_get (assign_grades marks_dict) name = Some grade)
               \<longleftrightarrow> (\<exists>mark. dict_get marks_dict name = Some mark))"
  using assms by (auto simp: assign_grades_keys assign_grades_get)

theorem grades_and_marks_same_keys_witness:
  "set (dict_keys (assign_grades [(''Asha'', 90), (''Ben'', 59)])) = {''Asha'', ''Ben''}"
  using grades_and_marks_same_keys [of "[(''Asha'', 90), (''Ben'', 59)]"]
  by (simp add: wf_dict_def dict_keys_def)

text \<open>
  Claim C10. Grade assignment checks no range: every integer mark gets a grade, a mark
  above 100 gets A, and a mark below 0, as any mark below 60, gets F.
\<close>

theorem assign_grades_unvalidated:
  assumes "wf_dict marks_dict" and "dict_get marks_dict name = Some mark"
  shows "(\<exists>grade. dict_get (assign_grades marks_dict) name = Some grade)
     \<and> (mark > 100 \<longrightarrow> dict_get (assign_grades marks_dict) name = Some ''A'')
     \<and> (mark < 0 \<longrightarrow> dict_get (assign_grades marks_dict) name = Some ''F'')
     \<and> (mark < 60 \<longrightarrow> dict_get (assign_grades marks_dict) name = Some ''F'')"
  using assms by (simp add: assign_grades_get spec_grade_def)

theorem assign_grades_unvalidated_witness:
  "dict_get (assign_grades [(''Asha'', 250), (''Ben'', - 7)]) ''Asha'' = Some ''A''
   \<and> dict_get (assign_grades [(''Asha'', 250), (''Ben'', - 7)]) ''Ben'' = Some ''F''"
  using assign_grades_unvalidated [of "[(''Asha'', 250), (''Ben'', - 7)]" "''Asha''" 250]
    assign_grades_unvalidated [of "[(''Asha'', 250), (''Ben'', - 7)]" "''Ben''" "- 7"]
  by (simp add: wf_dict_def dict_get_def)

subsection \<open>The empty dataset\<close>

text \<open>
  Claim C5. On the empty dictionary the average is the integer 0, the median is the
  integer 0, the highest and the lowest score are both the pair of "N/A" and 0, and the
  grade distribution computed from it counts zero for each of the five grades.
\<close>

theorem empty_dataset:
  "calculate_average [] = PyInt 0
   \<and> calculate_median [] = Inr (PyInt 0)
   \<and> get_max_score [] = Inr (''N/A'', 0)
   \<and> get_min_score [] = Inr (''N/A'', 0)
   \<and> calculate_grade_distribution (assign_grades []) =
       [(''A'', 0), (''B'', 0), (''C'', 0), (''D'', 0), (''F'', 0)]"
  by (simp add: calculate_average_def calculate_median_def get_max_score_def get_min_score_def
      calculate_grade_distribution_def assign_grades_def dict_items_def dict_values_def)

subsection \<open>Grade distribution\<close>


lemma distribution_body_five:
  "calculate_grade_distribution_body
     [(''A'', a), (''B'', b), (''C'', c), (''D'', d), (''F'', f)] grade =
   [(''A'', a + (if grade = ''A'' then 1 else 0)), (''B'', b + (if grade = ''B'' then 1 else 0)),
    (''C'', c + (if grade = ''C'' then 1 else 0)), (''D'', d + (if grade = ''D'' then 1 else 0)),
    (''F'', f + (if grade = ''F'' then 1 else 0))]"
  by (simp add: calculate_grade_distribution_body_def dict_get_def dict_set_def)

lemma distribution_loop:
  "foldl calculate_grade_distribution_body
     [(''A'', a), (''B'', b), (''C'', c), (''D'', d), (''F'', f)] grades =
   [(''A'', a + int (count_list grades ''A'')), (''B'', b + int (count_list grades ''B'')),
    (''C'', c + int (count_list grades ''C'')), (''D'', d + int (count_list grades ''D'')),
    (''F'', f + int (count_list grades ''F''))]"
proof (induction grades arbitrary: a b c d f)
  case Nil
  show ?case by simp
next
  case (Cons grade grades)
  show ?case
    unfolding foldl_Cons distribution_body_five Cons.IH by simp
qed

lemma calculate_grade_distribution_counts:
  "calculate_grade_distribution grades_dict =
   [(''A'', int (count_list (dict_values grades_dict) ''A'')),
    (''B'', int (count_list (dict_values grades_dict) ''B'')),
    (''C'', int (count_list (dict_values grades_dict) ''C'')),
    (''D'', int (count_list (dict_values grades_dict) ''D'')),
    (''F'', int (count_list (dict_values grades_dict) ''F''))]"
  unfolding calculate_grade_distribution_def
  using distribution_loop [of 0 0 0 0 0 "dict_values grades_dict"] by simp

lemma five_counts_sum:
  "set grades \<subseteq> {''A'', ''B'', ''C'', ''D'', ''F''} \<Longrightarrow>
   count_list grades ''A'' + count_list grades ''B'' + count_list grades ''C''
     + count_list grades ''D'' + count_list grades ''F'' = length grades"
  by (induction grades) auto

lemma spec_grade_five: "spec_grade mark \<in> {''A'', ''B'', ''C'', ''D'', ''F''}"
  by (simp add: spec_grade_def)

lemma assign_grades_values_five:
  "wf_dict marks_dict \<Longrightarrow>
   set (dict_values (assign_grades marks_dict)) \<subseteq> {''A'', ''B'', ''C'', ''D'', ''F''}"
  using spec_grade_five by (auto simp: assign_grades_map dict_values_def)

lemma assign_grades_length:
  "wf_dict marks_dict \<Longrightarrow> length (assign_grades marks_dict) = length marks_dict"
  by (simp add: assign_grades_map)

text \<open>
  Claim C4. The distribution computed from the grades of any dictionary of marks has the
  five keys A, B, C, D, F, each with the number of students holding that grade (zero for
  a grade nobody holds), and the five counts add up to the number of students.
\<close>

theorem distribution_counts_sum:
  assumes "wf_dict marks_dict"
  shows "dict_keys (calculate_grade_distribution (assign_grades marks_dict)) =
           [''A'', ''B'', ''C'', ''D'', ''F'']
     \<and> (\<forall>grade \<in> {''A'', ''B'', ''C'', ''D'', ''F''}.
           dict_get (calculate_grade_distribution (assign_grades marks_dict)) grade =
             Some (int (count_list (dict_values (assign_grades marks_dict)) grade)))
     \<and> (\<forall>grade \<in> {''A'', ''B'', ''C'', ''D'', ''F''}.
           grade \<notin> set (dict_values (assign_grades marks_dict)) \<longrightarrow>
           dict_get (calculate_grade_distribution (assign_grades marks_dict)) grade = Some 0)
     \<and> sum_list (dict_values (calculate_grade_distribution (assign_grades marks_dict))) =
           int (length marks_dict)"
proof -
  let ?grades = "dict_values (assign_grades marks_dict)"
  let ?dist = "calculate_grade_distribution (assign_grades marks_dict)"
  have "length ?grades = length marks_dict"
    using assms by (simp add: dict_values_def assign_grades_length)
  with five_counts_sum [OF assign_grades_values_five [OF assms]]
  have total: "sum_list (dict_values ?dist) = int (length marks_dict)"
    by (simp add: calculate_grade_distribution_counts [of "assign_grades marks_dict"]
        dict_values_def)
  have ks: "dict_keys ?dist = [''A'', ''B'', ''C'', ''D'', ''F'']"
    by (simp add: calculate_grade_distribution_counts [of "assign_grades marks_dict"]
        dict_keys_def)
  have each: "\<forall>grade \<in> {''A'', ''B'', ''C'', ''D'', ''F''}.
      dict_get ?dist grade = Some (int (count_list ?grades grade))"
    by (simp add: calculate_grade_distribution_counts [of "assign_grades marks_dict"]
        dict_get_def)
  have unused: "\<forall>grade \<in> {''A'', ''B'', ''C'', ''D'', ''F''}.
      grade \<notin> set ?grades \<longrightarrow> dict_get ?dist grade = Some 0"
    using each by (simp add: count_list_0_iff)
  from ks each unused total show ?thesis
    by blast
qed

theorem distribution_counts_sum_witness:
  "calculate_grade_distribution (assign_grades [(''Asha'', 95), (''Ben'', 59), (''Cy'', 91)]) =
     [(''A'', 2), (''B'', 0), (''C'', 0), (''D'', 0), (''F'', 1)]
   \<and> sum_list (dict_values (calculate_grade_distribution
         (assign_grades [(''Asha'', 95), (''Ben'', 59), (''Cy'', 91)]))) = 3"
  using distribution_counts_sum [of "[(''Asha'', 95), (''Ben'', 59), (''Cy'', 91)]"]
  by (simp add: wf_dict_def assign_grades_def assign_grades_body_def dict_items_def
      dict_set_def dict_values_def calculate_grade_distribution_def
      calculate_grade_distribution_body_def dict_get_def)

subsection \<open>The pass/fail filter\<close>

lemma dict_comprehension_loop:
  "distinct (map fst acc @ map fst its) \<Longrightarrow>
   foldl (\<lambda>d item. if cond item then dict_set d (fst item) (snd item) else d) acc its =
   acc @ filter cond its"
proof (induction its arbitrary: acc)
  case Nil
  show ?case by simp
next
  case (Cons item its)
  show ?case
  proof (cases "cond item")
    case True
    from Cons.prems have fresh: "fst item \<notin> fst ` set acc"
      by auto
    from Cons.prems have "distinct (map fst (acc @ [item]) @ map fst its)"
      by auto
    from Cons.IH [OF this] fresh True show ?thesis
      by (simp add: dict_set_fresh)
  next
    case False
    from Cons.prems have "distinct (map fst acc @ map fst its)"
      by auto
    from Cons.IH [OF this] False show ?thesis
      by simp
  qed
qed

lemma dict_comprehension_filter:
  "wf_dict d \<Longrightarrow> dict_comprehension cond (dict_items d) = filter cond d"
  using dict_comprehension_loop [of "[]" d cond]
  by (simp add: dict_comprehension_def dict_items_def wf_dict_def)

lemma length_filter_complement:
  "length (filter (\<lambda>(name, score). (pass_threshold::int) \<le> score) d)
     + length (filter (\<lambda>(name, score). score < pass_threshold) d) = length d"
  by (induction d) auto

lemma wf_dict_get_iff:
  "wf_dict d \<Longrightarrow> dict_get d k = Some v \<longleftrightarrow> (k, v) \<in> set d"
  by (simp add: wf_dict_def dict_get_def)

text \<open>
  Claim C2. For any dictionary of marks and any threshold, the passed students are
  exactly those with a mark at or above the threshold, the failed students exactly those
  with a mark below it, no student is in both, and the two reported totals add up to the
  number of students.
\<close>

theorem pass_fail_partition:
  assumes "wf_dict marks_dict"
  shows "set (dict_keys (passed_students (print_pass_fail_summary marks_dict pass_threshold))) =
           {name. \<exists>mark. dict_get marks_dict name = Some mark \<and> mark \<ge> pass_threshold}
     \<and> set (dict_keys (failed_students (print_pass_fail_summary marks_dict pass_threshold))) =
           {name. \<exists>mark. dict_get marks_dict name = Some mark \<and> mark < pass_threshold}
     \<and> set (dict_keys (passed_students (print_pass_fail_summary marks_dict pass_threshold)))
           \<inter> set (dict_keys (failed_students (print_pass_fail_summary marks_dict pass_threshold)))
         = {}
     \<and> total_passed (print_pass_fail_summary marks_dict pass_threshold)
           + total_failed (print_pass_fail_summary marks_dict pass_threshold)
         = length marks_dict
     \<and> total_passed (print_pass_fail_summary marks_dict pass_threshold) =
           length (dict_keys (passed_students (print_pass_fail_summary marks_dict pass_threshold)))
     \<and> total_failed (print_pass_fail_summary marks_dict pass_threshold) =
           length (dict_keys (failed_students (print_pass_fail_summary marks_dict pass_threshold)))"
proof -
  let ?passed = "filter (\<lambda>(name, score). score \<ge> pass_threshold) marks_dict"
  let ?failed = "filter (\<lambda>(name, score). score < pass_threshold) marks_dict"
  have summary: "print_pass_fail_summary marks_dict pass_threshold =
      \<lparr>passed_students = ?passed, failed_students = ?failed,
       total_passed = length ?passed, total_failed = length ?failed\<rparr>"
    using assms by (simp add: print_pass_fail_summary_def dict_comprehension_filter Let_def)
  have passed: "set (dict_keys ?passed) =
      {name. \<exists>mark. dict_get marks_dict name = Some mark \<and> mark \<ge> pass_threshold}"
    using assms by (force simp: dict_keys_def wf_dict_get_iff)
  have failed: "set (dict_keys ?failed) =
      {name. \<exists>mark. dict_get marks_dict name = Some mark \<and> mark < pass_threshold}"
    using assms by (force simp: dict_keys_def wf_dict_get_iff)
  have disjoint: "set (dict_keys ?passed) \<inter> set (dict_keys ?failed) = {}"
    unfolding passed failed by auto
  show ?thesis
    unfolding summary
    using passed failed disjoint length_filter_complement [of pass_threshold marks_dict]
    by (simp add: dict_keys_def)
qed

theorem pass_fail_partition_witness:
  "dict_keys (passed_students (print_pass_fail_summary
       [(''Asha'', 95), (''Ben'', 39), (''Cy'', 40)] 40)) = [''Asha'', ''Cy'']
   \<and> dict_keys (failed_students (print_pass_fail_summary
       [(''Asha'', 95), (''Ben'', 39), (''Cy'', 40)] 40)) = [''Ben'']
   \<and> total_passed (print_pass_fail_summary [(''Asha'', 95), (''Ben'', 39), (''Cy'', 40)] 40)
      + total_failed (print_pass_fail_summary [(''Asha'', 95), (''Ben'', 39), (''Cy'', 40)] 40)
      = 3"
  using pass_fail_partition [of "[(''Asha'', 95), (''Ben'', 39), (''Cy'', 40)]" 40]
  by (simp add: wf_dict_def print_pass_fail_summary_def dict_comprehension_def dict_items_def
      dict_set_def dict_keys_def)

subsection \<open>Highest and lowest score\<close>

lemma max_loop_mem: "max_loop key maxitem rest \<in> set (maxitem # rest)"
  by (induction rest arbitrary: maxitem) auto

lemma max_loop_ge: "x \<in> set (maxitem # rest) \<Longrightarrow> key x \<le> key (max_loop key maxitem rest)"
proof (induction rest arbitrary: maxitem x)
  case Nil
  then show ?case by simp
next
  case (Cons item rest)
  show ?case
  proof (cases "key item > key maxitem")
    case True
    have "key item \<le> key (max_loop key item rest)"
      by (rule Cons.IH) simp
    with True Cons.prems Cons.IH [of x item] show ?thesis
      by auto
  next
    case False
    have "key maxitem \<le> key (max_loop key maxitem rest)"
      by (rule Cons.IH) simp
    with False Cons.prems Cons.IH [of x maxitem] show ?thesis
      by auto
  qed
qed

lemma max_loop_first:
  "find (\<lambda>x. key x = key (max_loop key maxitem rest)) (maxitem # rest) =
   Some (max_loop key maxitem rest)"
proof (induction rest arbitrary: maxitem)
  case Nil
  show ?case by simp
next
  case (Cons item rest)
  show ?case
  proof (cases "key item > key maxitem")
    case True
    have "key item \<le> key (max_loop key item rest)"
      by (rule max_loop_ge) simp
    with True have "key maxitem \<noteq> key (max_loop key item rest)"
      by simp
    with True Cons.IH [of item] show ?thesis
      by simp
  next
    case False
    have ge: "key maxitem \<le> key (max_loop key maxitem rest)"
      by (rule max_loop_ge) simp
    show ?thesis
    proof (cases "key maxitem = key (max_loop key maxitem rest)")
      case True
      with False Cons.IH [of maxitem] show ?thesis
        by simp
    next
      case neq: False
      with ge False have "key item \<noteq> key (max_loop key maxitem rest)"
        by simp
      with neq False Cons.IH [of maxitem] show ?thesis
        by simp
    qed
  qed
qed

lemma min_loop_mem: "min_loop key minitem rest \<in> set (minitem # rest)"
  by (induction rest arbitrary: minitem) auto

lemma min_loop_le: "x \<in> set (minitem # rest) \<Longrightarrow> key (min_loop key minitem rest) \<le> key x"
proof (induction rest arbitrary: minitem x)
  case Nil
  then show ?case by simp
next
  case (Cons item rest)
  show ?case
  proof (cases "key item < key minitem")
    case True
    have "key (min_loop key item rest) \<le> key item"
      by (rule Cons.IH) simp
    with True Cons.prems Cons.IH [of x item] show ?thesis
      by auto
  next
    case False
    have "key (min_loop key minitem rest) \<le> key minitem"
      by (rule Cons.IH) simp
    with False Cons.prems Cons.IH [of x minitem] show ?thesis
      by auto
  qed
qed

lemma min_loop_first:
  "find (\<lambda>x. key x = key (min_loop key minitem rest)) (minitem # rest) =
   Some (min_loop key minitem rest)"
proof (induction rest arbitrary: minitem)
  case Nil
  show ?case by simp
next
  case (Cons item rest)
  show ?case
  proof (cases "key item < key minitem")
    case True
    have "key (min_loop key item rest) \<le> key item"
      by (rule min_loop_le) simp
    with True have "key minitem \<noteq> key (min_loop key item rest)"
      by simp
    with True Cons.IH [of item] show ?thesis
      by simp
  next
    case False
    have le: "key (min_loop key minitem rest) \<le> key minitem"
      by (rule min_loop_le) simp
    show ?thesis
    proof (cases "key minitem = key (min_loop key minitem rest)")
      case True
      with False Cons.IH [of minitem] show ?thesis
        by simp
    next
      case neq: False
      with le False have "key item \<noteq> key (min_loop key minitem rest)"
        by simp
      with neq False Cons.IH [of minitem] show ?thesis
        by simp
    qed
  qed
qed

text \<open>
  Claim C6. On a non-empty dictionary of marks, the highest score is an item of the
  dictionary whose mark is at least every mark, the lowest score is an item whose mark is
  at most every mark, and each is the first item, in the iteration order of the
  dictionary, that carries the extreme mark.
\<close>

theorem extreme_scores:
  assumes "wf_dict marks_dict" and "marks_dict \<noteq> []"
  shows "\<exists>max_name max_score min_name min_score.
       get_max_score marks_dict = Inr (max_name, max_score)
     \<and> get_min_score marks_dict = Inr (min_name, min_score)
     \<and> dict_get marks_dict max_name = Some max_score
     \<and> dict_get marks_dict min_name = Some min_score
     \<and> (\<forall>mark \<in> set (dict_values marks_dict). min_score \<le> mark \<and> mark \<le> max_score)
     \<and> find (\<lambda>item. snd item = max_score) (dict_items marks_dict) = Some (max_name, max_score)
     \<and> find (\<lambda>item. snd item = min_score) (dict_items marks_dict) = Some (min_name, min_score)"
proof -
  from assms(2) obtain first rest where d: "marks_dict = first # rest"
    by (cases marks_dict) auto
  let ?hi = "max_loop snd first rest" and ?lo = "min_loop snd first rest"
  have hi: "get_max_score marks_dict = Inr (fst ?hi, snd ?hi)"
    and lo: "get_min_score marks_dict = Inr (fst ?lo, snd ?lo)"
    by (simp_all add: get_max_score_def get_min_score_def py_max_def py_min_def dict_items_def d)
  have "?hi \<in> set marks_dict" and "?lo \<in> set marks_dict"
    unfolding d by (rule max_loop_mem, rule min_loop_mem)
  then have present: "dict_get marks_dict (fst ?hi) = Some (snd ?hi)"
    "dict_get marks_dict (fst ?lo) = Some (snd ?lo)"
    using assms(1) by (simp_all add: wf_dict_get_iff)
  have bounds: "\<forall>mark \<in> set (dict_values marks_dict). snd ?lo \<le> mark \<and> mark \<le> snd ?hi"
    unfolding d dict_values_def
    using max_loop_ge [of _ first rest snd] min_loop_le [of _ first rest snd] by auto
  have firsts: "find (\<lambda>item. snd item = snd ?hi) (dict_items marks_dict) = Some (fst ?hi, snd ?hi)"
    "find (\<lambda>item. snd item = snd ?lo) (dict_items marks_dict) = Some (fst ?lo, snd ?lo)"
    unfolding d dict_items_def
    using max_loop_first [of snd first rest] min_loop_first [of snd first rest] by simp_all
  from hi lo present bounds firsts show ?thesis
    by blast
qed

theorem extreme_scores_witness:
  "get_max_score [(''Asha'', 70), (''Ben'', 95), (''Cy'', 95), (''Dee'', 70)] = Inr (''Ben'', 95)
   \<and> get_min_score [(''Asha'', 70), (''Ben'', 95), (''Cy'', 95), (''Dee'', 70)] = Inr (''Asha'', 70)"
  using extreme_scores [of "[(''Asha'', 70), (''Ben'', 95), (''Cy'', 95), (''Dee'', 70)]"]
  by (simp add: wf_dict_def get_max_score_def get_min_score_def py_max_def py_min_def
      dict_items_def)

subsection \<open>Average and median\<close>







lemma count_below_above_le:
  assumes "a < b"
  shows "length xs \<le> count_below xs b + count_above xs a"
proof (induction xs)
  case Nil
  show ?case by (simp add: count_below_def count_above_def)
next
  case (Cons x xs)
  from assms have "x < b \<or> a < x" by linarith
  with Cons show ?case
    by (auto simp: count_below_def count_above_def)
qed

lemma lower_middle_unique:
  assumes "lower_middle xs a" and "lower_middle xs b"
  shows "a = b"
proof (rule ccontr)
  assume "a \<noteq> b"
  then consider "a < b" | "b < a" by linarith
  then show False
  proof cases
    case 1
    from count_below_above_le [OF 1, of xs] assms show False
      by (simp add: lower_middle_def)
  next
    case 2
    from count_below_above_le [OF 2, of xs] assms show False
      by (simp add: lower_middle_def)
  qed
qed

lemma upper_middle_unique:
  assumes "upper_middle xs a" and "upper_middle xs b"
  shows "a = b"
proof (rule ccontr)
  assume "a \<noteq> b"
  then consider "a < b" | "b < a" by linarith
  then show False
  proof cases
    case 1
    from count_below_above_le [OF 1, of xs] assms show False
      by (simp add: upper_middle_def)
  next
    case 2
    from count_below_above_le [OF 2, of xs] assms show False
      by (simp add: upper_middle_def)
  qed
qed





subsection \<open>Strings and integers\<close>

lemma dropWhile_hd: "xs \<noteq> [] \<Longrightarrow> \<not> P (hd xs) \<Longrightarrow> dropWhile P xs = xs"
  by (cases xs) auto

lemma last_dropWhile: "dropWhile P xs \<noteq> [] \<Longrightarrow> last (dropWhile P xs) = last xs"
  by (metis last_appendR takeWhile_dropWhile_id)

lemma py_strip_no_space:
  assumes "s = [] \<or> (\<not> py_isspace (hd s) \<and> \<not> py_isspace (last s))"
  shows "py_strip s = s"
proof (cases "s = []")
  case True
  then show ?thesis by (simp add: py_strip_def)
next
  case False
  with assms have h: "\<not> py_isspace (hd s)" and l: "\<not> py_isspace (hd (rev s))"
    by (simp_all add: hd_rev)
  from False h have "dropWhile py_isspace s = s"
    by (rule dropWhile_hd)
  moreover from False l have "dropWhile py_isspace (rev s) = rev s"
    by (intro dropWhile_hd) simp_all
  ultimately show ?thesis
    by (simp add: py_strip_def)
qed

lemma py_strip_ends:
  "py_strip s = [] \<or> (\<not> py_isspace (hd (py_strip s)) \<and> \<not> py_isspace (last (py_strip s)))"
proof (cases "py_strip s = []")
  case True
  then show ?thesis by simp
next
  case False
  let ?u = "dropWhile py_isspace s"
  let ?v = "dropWhile py_isspace (rev ?u)"
  have t: "py_strip s = rev ?v"
    by (simp add: py_strip_def)
  with False have v: "?v \<noteq> []"
    by simp
  have u: "?u \<noteq> []"
  proof
    assume "?u = []"
    then have "?v = []" by (simp only: rev.simps dropWhile.simps)
    with v show False by contradiction
  qed
  from v have "\<not> py_isspace (hd ?v)"
    by (rule hd_dropWhile)
  then have l: "\<not> py_isspace (last (py_strip s))"
    unfolding t by (simp add: last_rev)
  from v have "last ?v = last (rev ?u)"
    by (rule last_dropWhile)
  also have "\<dots> = hd ?u"
    by (simp add: last_rev)
  finally have "hd (py_strip s) = hd ?u"
    unfolding t by (simp add: hd_rev)
  with hd_dropWhile [OF u] l show ?thesis
    by simp
qed

lemma py_strip_idem: "py_strip (py_strip s) = py_strip s"
  using py_strip_ends [of s] by (rule py_strip_no_space)















subsection \<open>CSV import\<close>








subsection \<open>Dictionaries built by the loader\<close>

text \<open>
  Whatever the rows, the loader builds a dictionary with distinct names that carry no
  whitespace at either end; read from a file, the names carry no carriage return
  either. These are the conditions on names under which export and re-import give a
  dictionary back.
\<close>

lemma load_from_csv_body_keys:
  "set (dict_keys (load_from_csv_body marks_dict row)) \<subseteq>
   set (dict_keys marks_dict) \<union> (if 2 \<le> length row then {py_strip (row ! 0)} else {})"
proof (cases row)
  case Nil
  then show ?thesis by (simp add: load_from_csv_body_def)
next
  case (Cons name_column columns)
  then show ?thesis
    by (cases columns)
       (auto simp: load_from_csv_body_def dict_keys_def dict_set_def dom_update
             split: option.splits)
qed

lemma load_from_csv_body_wf:
  "wf_dict marks_dict \<Longrightarrow> wf_dict (load_from_csv_body marks_dict row)"
proof (cases row)
  case Nil
  assume "wf_dict marks_dict"
  with Nil show ?thesis by (simp add: load_from_csv_body_def)
next
  case (Cons name_column columns)
  assume "wf_dict marks_dict"
  with Cons show ?thesis
    by (cases columns) (auto simp: load_from_csv_body_def wf_dict_dict_set split: option.splits)
qed

lemma load_loop_invariant:
  assumes "wf_dict acc" and "\<forall>name \<in> set (dict_keys acc). P name"
    and "\<forall>row \<in> set rows. 2 \<le> length row \<longrightarrow> P (py_strip (row ! 0))"
  shows "wf_dict (foldl load_from_csv_body acc rows)
     \<and> (\<forall>name \<in> set (dict_keys (foldl load_from_csv_body acc rows)). P name)"
  using assms
proof (induction rows arbitrary: acc)
  case Nil
  then show ?case by simp
next
  case (Cons row rows)
  have "wf_dict (load_from_csv_body acc row)"
    using Cons.prems(1) by (rule load_from_csv_body_wf)
  moreover have "\<forall>name \<in> set (dict_keys (load_from_csv_body acc row)). P name"
    using load_from_csv_body_keys [of acc row] Cons.prems(2,3)
    by (auto split: if_splits)
  moreover have "\<forall>row \<in> set rows. 2 \<le> length row \<longrightarrow> P (py_strip (row ! 0))"
    using Cons.prems(3) by simp
  ultimately show ?case
    using Cons.IH [of "load_from_csv_body acc row"] by simp
qed

lemma universal_newlines_no_cr_left: "CHR 0x0D \<notin> set (universal_newlines s)"
  by (induction s rule: universal_newlines.induct) auto

lemma set_py_strip: "set (py_strip s) \<subseteq> set s"
proof -
  have "set (py_strip s) \<subseteq> set (dropWhile py_isspace s)"
    unfolding py_strip_def using set_dropWhileD [of _ py_isspace "rev (dropWhile py_isspace s)"]
    by auto
  also have "\<dots> \<subseteq> set s"
    using set_dropWhileD [of _ py_isspace s] by auto
  finally show ?thesis .
qed

lemma load_from_csv_names:
  "wf_dict (load_from_csv fs typed)
   \<and> (\<forall>name \<in> set (dict_keys (load_from_csv fs typed)).
         py_strip name = name \<and> CHR 0x0D \<notin> set name)"
proof (cases "fs (py_strip typed)")
  case NoFile
  then show ?thesis by (simp add: load_from_csv_def wf_dict_def dict_keys_def)
next
  case Denied
  then show ?thesis by (simp add: load_from_csv_def wf_dict_def dict_keys_def)
next
  case (File content)
  show ?thesis
  proof (cases "csv_reader content")
    case Nil
    with File show ?thesis by (simp add: load_from_csv_def wf_dict_def dict_keys_def)
  next
    case (Cons header rows)
    have "\<forall>row \<in> set rows. 2 \<le> length row \<longrightarrow>
        py_strip (py_strip (row ! 0)) = py_strip (row ! 0) \<and> CHR 0x0D \<notin> set (py_strip (row ! 0))"
    proof (intro ballI impI)
      fix row assume row: "row \<in> set rows" and len: "2 \<le> length row"
      from row Cons have "row \<in> set (csv_reader content)"
        by simp
      then obtain written where written: "row = map universal_newlines written"
        by (auto simp: csv_reader_def)
      with len have "0 < length written"
        by (cases written) simp_all
      then have "row ! 0 = universal_newlines (written ! 0)"
        unfolding written by (rule nth_map)
      then have "CHR 0x0D \<notin> set (row ! 0)"
        by (simp add: universal_newlines_no_cr_left)
      with set_py_strip [of "row ! 0"]
      show "py_strip (py_strip (row ! 0)) = py_strip (row ! 0)
          \<and> CHR 0x0D \<notin> set (py_strip (row ! 0))"
        by (auto simp: py_strip_idem)
    qed
    with load_loop_invariant [of "[]" "\<lambda>name. py_strip name = name \<and> CHR 0x0D \<notin> set name" rows]
    have "wf_dict (load_rows rows)
        \<and> (\<forall>name \<in> set (dict_keys (load_rows rows)). py_strip name = name \<and> CHR 0x0D \<notin> set name)"
      by (simp add: load_rows_def wf_dict_def dict_keys_def)
    with File Cons show ?thesis
      by (simp add: load_from_csv_def)
  qed
qed

subsection \<open>CSV export and re-import\<close>








end
